theory Spec2Isabelle
  imports Main
begin

section \<open>Go values used by package kustoutils\<close>

text \<open>
  A Go \<open>string\<close> is a byte sequence, modelled as \<open>string\<close> (a list of \<open>char\<close>);
  the empty Go string is \<open>[]\<close>. A Go slice of strings is a \<open>string list\<close>; the nil
  slice and the empty slice are both \<open>[]\<close> (the code only ranges over, appends to and
  takes the length of its slices, which does not tell them apart).
\<close>

text \<open>
  A Go \<open>error\<close> value. The functions of \<open>utils.go\<close> never wrap an error: they hand
  on the value they received, so the constructors only record where an error was made.
\<close>

datatype error =
    RegexpSyntaxError string
  | KustoError string
  | ErrorString string
  | OtherError string

text \<open>A run-time panic: indexing a slice of length \<open>n\<close> at \<open>i\<close> with \<open>n \<le> i\<close>.\<close>

datatype panic = IndexOutOfRange nat nat

definition index :: "'a list \<Rightarrow> nat \<Rightarrow> panic + 'a" where
  "index xs i = (if i < length xs then Inr (xs ! i) else Inl (IndexOutOfRange i (length xs)))"

subsection \<open>Package strings\<close>

text \<open>
  \<open>strings.Index(s, sep)\<close>: the position of the first occurrence of \<open>sep\<close> in
  \<open>s\<close>, or \<open>None\<close> where Go returns \<open>-1\<close>.
\<close>

fun Index :: "string \<Rightarrow> string \<Rightarrow> nat option" where
  "Index [] sep = (if sep = [] then Some 0 else None)"
| "Index (c # cs) sep =
     (if take (length sep) (c # cs) = sep then Some 0 else map_option Suc (Index cs sep))"

text \<open>\<open>strings.Contains(s, substr)\<close> is \<open>Index(s, substr) >= 0\<close>.\<close>

definition Contains :: "string \<Rightarrow> string \<Rightarrow> bool" where
  "Contains s substr = (Index s substr \<noteq> None)"

lemma Index_Some_bound:
  "Index s sep = Some m \<Longrightarrow> m + length sep \<le> length s"
proof (induction s arbitrary: m)
  case Nil
  then show ?case by (simp split: if_splits)
next
  case (Cons c cs)
  show ?case
  proof (cases "take (length sep) (c # cs) = sep")
    case True
    then have "length (take (length sep) (c # cs)) = length sep"
      by simp
    then have "length sep \<le> length (c # cs)"
      by simp
    with True Cons.prems show ?thesis by simp
  next
    case False
    with Cons.prems obtain k where "Index cs sep = Some k" "m = Suc k"
      by auto
    with Cons.IH show ?thesis by fastforce
  qed
qed

text \<open>
  \<open>strings.Split(s, sep)\<close> for a non-empty separator: cut at the first occurrence of
  \<open>sep\<close>, then go on behind it; the result always has at least one element. With the
  empty separator Go cuts \<open>s\<close> into its UTF-8 sequences, rendered here as one element
  per byte; \<open>utils.go\<close> never passes the empty separator.
\<close>

function Split :: "string \<Rightarrow> string \<Rightarrow> string list" where
  "Split s sep =
     (if sep = [] then map (\<lambda>c. [c]) s
      else (case Index s sep of
              None \<Rightarrow> [s]
            | Some m \<Rightarrow> take m s # Split (drop (m + length sep) s) sep))"
  by pat_completeness auto
termination
proof (relation "measure (\<lambda>(s, sep). length s)")
  show "wf (measure (\<lambda>(s, sep). length s))" by simp
next
  fix s sep :: string and m :: nat
  assume "sep \<noteq> []" and "Index s sep = Some m"
  then have "m + length sep \<le> length s" and "0 < length sep"
    by (simp_all add: Index_Some_bound)
  then have "length s - (m + length sep) < length s"
    by arith
  then show "((drop (m + length sep) s, sep), (s, sep)) \<in> measure (\<lambda>(s, sep). length s)"
    by simp
qed

declare Split.simps [simp del]

section \<open>Cluster name extraction\<close>

text \<open>
  \<open>ClusterNameFromURI\<close> is
  \<open>strings.Split(strings.Split(uri, "https://")[1], ".")[0]\<close>: both index expressions are
  bounds-checked by the Go run time.
\<close>

definition ClusterNameFromURI :: "string \<Rightarrow> panic + string" where
  "ClusterNameFromURI uri =
     (case index (Split uri ''https://'') 1 of
        Inl p \<Rightarrow> Inl p
      | Inr rest \<Rightarrow> index (Split rest ''.'') 0)"

section \<open>Collaborators of the cluster\<close>

subsection \<open>Package regexp\<close>

text \<open>
  A compiled \<open>*regexp.Regexp\<close> is used through \<open>MatchString\<close> only, so it is the
  predicate that \<open>MatchString\<close> computes. \<open>regexp.Compile\<close> belongs to the Go standard
  library; it is a parameter of the model (field \<open>regexp_Compile\<close> of \<open>env\<close> below).
\<close>

datatype Regexp = Regexp (MatchString: "string \<Rightarrow> bool")

text \<open>
  The bytes that \<open>regexp.QuoteMeta\<close> escapes: backslash and \<open>.+*?()|[]{}^$\<close>. A pattern
  free of them is a literal, and \<open>MatchString\<close> of a literal reports whether the string
  contains it (the match is not anchored).
\<close>

definition specialBytes :: "char list" where
  "specialBytes = CHR 0x5C # ''.+*?()|[]{}^$''"

definition hasMeta :: "string \<Rightarrow> bool" where
  "hasMeta s = (\<exists>c \<in> set s. c \<in> set specialBytes)"

definition literalRegexp :: "string \<Rightarrow> Regexp" where
  "literalRegexp pat = Regexp (\<lambda>s. Contains s pat)"

text \<open>
  A compiler for literals only, standing in for \<open>regexp.Compile\<close> where a concrete one is
  needed: it agrees with Go on every pattern without a special byte and refuses the
  others, among them \<open>(\<close>, which Go refuses as well (missing closing parenthesis).
\<close>

definition literalCompile :: "string \<Rightarrow> error + Regexp" where
  "literalCompile pat =
     (if hasMeta pat then Inl (RegexpSyntaxError pat) else Inr (literalRegexp pat))"

subsection \<open>The Kusto client\<close>

text \<open>
  A \<open>table.Row\<close> with the \<open>String()\<close> rendering of each of its \<open>Values\<close>. The iterator
  hands the callback either a row or an inline error, and ends with \<open>io.EOF\<close>
  (\<open>terminal = None\<close>) or with an error.
\<close>

datatype Row = Row (Values: "string list")

datatype event = RowEvent Row | InlineError error

record RowIterator =
  events :: "event list"
  terminal :: "error option"

text \<open>
  \<open>RowIterator.DoOnRowOrError\<close>: the callback runs on each event in turn and may change
  the variables it closes over (the state \<open>'s\<close>); an error returned by the callback ends
  the iteration with that error, \<open>io.EOF\<close> ends it with nil, any other error of the
  stream ends it with that error. A panic of the callback unwinds the iteration.
\<close>

fun DoOnRowOrError ::
  "event list \<Rightarrow> error option \<Rightarrow> (event \<Rightarrow> 's \<Rightarrow> panic + ('s \<times> error option)) \<Rightarrow> 's
     \<Rightarrow> panic + ('s \<times> error option)" where
  "DoOnRowOrError [] term f s = Inr (s, term)"
| "DoOnRowOrError (ev # evs) term f s =
     (case f ev s of
        Inl p \<Rightarrow> Inl p
      | Inr (s', Some err) \<Rightarrow> Inr (s', Some err)
      | Inr (s', None) \<Rightarrow> DoOnRowOrError evs term f s')"

text \<open>The interface \<open>QueryClient\<close>, with the one method that \<open>utils.go\<close> calls.\<close>

record QueryClient =
  Mgmt :: "string \<Rightarrow> string \<Rightarrow> error + RowIterator"

text \<open>
  Modelled from the spec: the type \<open>Wrapper\<close> of the delta-kusto wrapper is declared
  outside the files at hand. Its method \<open>CreateExecConfiguration\<close> is the spec's external
  config generator, "invoked with (cluster URI, target database list, schema file
  reference, data-loss flag); returns a reference to a generated job file or fails".
\<close>

record Wrapper =
  Wrapper_CreateExecConfiguration ::
    "string \<Rightarrow> string list \<Rightarrow> string \<Rightarrow> bool \<Rightarrow> string \<times> error option"

record KustoCluster =
  URI :: string
  Databases :: "string list"
  Client :: QueryClient
  wrapper :: Wrapper

subsection \<open>Types of package v1alpha1 and of the Kubernetes API\<close>

text \<open>
  Modelled from the spec: \<open>TargetFilter\<close>, \<open>ClusterTargets\<close> and
  \<open>ExecutionConfiguration\<close> are declared in \<open>api/v1alpha1\<close>, outside the files at hand;
  the records have the fields that \<open>utils.go\<close> reads and writes. The spec gives the
  filter the selectors single database, explicit list, webhook endpoint with label; the
  targets a list of database names; the configuration a schema file and a job file
  reference.
\<close>

record TargetFilter =
  DB :: string
  DBS :: "string list"
  Webhook :: string
  Label :: string

record ClusterTargets =
  DBs :: "string list"

record ExecutionConfiguration =
  KQLFile :: string
  JobFile :: string

text \<open>A \<open>v1.ConfigMap\<close>, with its \<open>Data\<close> map.\<close>

record ConfigMap =
  Data :: "string \<rightharpoonup> string"

subsection \<open>Package-level collaborators and the log of calls\<close>

text \<open>
  Modelled from the spec: \<open>NewWebHookClient(nil).PerformQuery\<close>,
  \<open>StoreKQLSchemaToFile\<close> and \<open>RunDeltaKusto\<close> are functions of this package defined
  outside the files at hand: the spec's external lookup service ("request keyed by
  (cluster short name, label) at a caller-supplied endpoint; response is an ordered list
  of database names"), its schema file store ("writes schema content to a durable
  location and returns a reference") and its apply engine ("invoked with a job file
  reference; returns success/failure only"). Each is a parameter with the Go result
  type; \<open>regexp_Compile\<close> is the standard library's \<open>regexp.Compile\<close>.
\<close>

record env =
  regexp_Compile :: "string \<Rightarrow> error + Regexp"
  PerformQuery :: "string \<Rightarrow> string \<Rightarrow> string \<Rightarrow> string list \<times> error option"
  StoreKQLSchemaToFile :: "string \<Rightarrow> string \<times> error option"
  RunDeltaKusto :: "string \<Rightarrow> error option"

text \<open>
  Every call that leaves the process is appended to a log, which each operation takes
  and returns. An operation calls each collaborator at most once, so a collaborator is a
  function of its arguments. Messages written to the zerolog logger are not modelled.
\<close>

datatype call =
    MgmtCall string string
  | StopCall
  | PerformQueryCall string string string
  | StoreKQLSchemaToFileCall string
  | CreateExecConfigurationCall string "string list" string bool
  | RunDeltaKustoCall string

section \<open>Operations of KustoCluster\<close>

text \<open>
  The receiver, its \<open>Client\<close> and \<open>wrapper\<close>, and the \<open>cfgMap\<close> argument are pointers
  or interface values in Go; the operations are modelled for non-nil ones. The
  \<open>context.Context\<close> passed to \<open>Mgmt\<close> is the background context and is left out.
\<close>

subsection \<open>ListDatabases\<close>

definition showDatabases :: string where
  "showDatabases = ''.show databases | project DatabaseName''"

text \<open>
  The callback passed to \<open>DoOnRowOrError\<close>; its state is the slice \<open>dbs\<close>. It always
  returns nil; \<open>row.Values[0]\<close> panics on a row without columns.
\<close>

definition onRowOrError :: "Regexp \<Rightarrow> event \<Rightarrow> string list \<Rightarrow> panic + (string list \<times> error option)" where
  "onRowOrError nameFilter ev dbs =
     (case ev of
        RowEvent row \<Rightarrow>
          (case index (Values row) 0 of
             Inl p \<Rightarrow> Inl p
           | Inr dbName \<Rightarrow>
               if MatchString nameFilter dbName then Inr (dbs @ [dbName], None)
               else Inr (dbs, None))
      | InlineError inlineError \<Rightarrow> Inr (dbs, None))"

text \<open>
  The deferred \<open>iter.Stop()\<close> runs on every way out once the iterator exists, also when
  the callback panics.
\<close>

definition ListDatabases ::
  "env \<Rightarrow> KustoCluster \<Rightarrow> string \<Rightarrow> call list
     \<Rightarrow> (panic + (string list \<times> error option)) \<times> call list" where
  "ListDatabases e c expression log =
     (case regexp_Compile e expression of
        Inl err \<Rightarrow> (Inr ([], Some err), log)
      | Inr nameFilter \<Rightarrow>
          (case Mgmt (Client c) [] showDatabases of
             Inl err \<Rightarrow> (Inr ([], Some err), log @ [MgmtCall [] showDatabases])
           | Inr iter \<Rightarrow>
               (case DoOnRowOrError (events iter) (terminal iter) (onRowOrError nameFilter) [] of
                  Inl p \<Rightarrow> (Inl p, log @ [MgmtCall [] showDatabases, StopCall])
                | Inr (dbs, Some err) \<Rightarrow>
                    (Inr ([], Some err), log @ [MgmtCall [] showDatabases, StopCall])
                | Inr (dbs, None) \<Rightarrow>
                    (Inr (dbs, None), log @ [MgmtCall [] showDatabases, StopCall]))))"

subsection \<open>AquireTargets\<close>

text \<open>
  The four branches compute \<open>(dbs, err)\<close>; in the webhook branch the arguments are
  evaluated before the call, so a panic of \<open>ClusterNameFromURI\<close> comes before the
  request.
\<close>

definition AquireTargets ::
  "env \<Rightarrow> KustoCluster \<Rightarrow> TargetFilter \<Rightarrow> call list
     \<Rightarrow> (panic + (ClusterTargets \<times> error option)) \<times> call list" where
  "AquireTargets e c filter' log =
     (let targets = \<lparr>DBs = []\<rparr>;
          r = (if DB filter' \<noteq> [] then ListDatabases e c (DB filter') log
               else if 0 < length (DBS filter') then (Inr (DBS filter', None), log)
               else if Webhook filter' \<noteq> [] then
                 (case ClusterNameFromURI (URI c) of
                    Inl p \<Rightarrow> (Inl p, log)
                  | Inr name \<Rightarrow>
                      (Inr (PerformQuery e (Webhook filter') name (Label filter')),
                       log @ [PerformQueryCall (Webhook filter') name (Label filter')]))
               else ListDatabases e c [] log)
      in (case r of
            (Inl p, log') \<Rightarrow> (Inl p, log')
          | (Inr (dbs, Some err), log') \<Rightarrow> (Inr (targets, Some err), log')
          | (Inr (dbs, None), log') \<Rightarrow> (Inr (targets\<lparr>DBs := dbs\<rparr>, None), log')))"

subsection \<open>Execute\<close>

definition Execute ::
  "env \<Rightarrow> KustoCluster \<Rightarrow> ClusterTargets \<Rightarrow> ExecutionConfiguration \<Rightarrow> call list
     \<Rightarrow> (ClusterTargets \<times> error option) \<times> call list" where
  "Execute e c targets config log =
     (let done = \<lparr>DBs = []\<rparr>;
          err = RunDeltaKusto e (JobFile config)
      in ((done, err), log @ [RunDeltaKustoCall (JobFile config)]))"

subsection \<open>CreateExecConfiguration\<close>

definition CreateExecConfiguration ::
  "env \<Rightarrow> KustoCluster \<Rightarrow> ClusterTargets \<Rightarrow> ConfigMap \<Rightarrow> bool \<Rightarrow> call list
     \<Rightarrow> (ExecutionConfiguration \<times> error option) \<times> call list" where
  "CreateExecConfiguration e c targets cfgMap failIfDataLoss log =
     (let config = \<lparr>KQLFile = [], JobFile = []\<rparr> in
      case Data cfgMap ''kql'' of
        None \<Rightarrow> ((config, Some (ErrorString ''no kql found in configmap'')), log)
      | Some kql \<Rightarrow>
          (case StoreKQLSchemaToFile e kql of
             (kqlFile, Some err) \<Rightarrow> ((config, Some err), log @ [StoreKQLSchemaToFileCall kql])
           | (kqlFile, None) \<Rightarrow>
               (case Wrapper_CreateExecConfiguration (wrapper c) (URI c) (DBs targets) kqlFile
                       failIfDataLoss of
                  (deltaCfgFile, Some err) \<Rightarrow>
                    ((config, Some err),
                     log @ [StoreKQLSchemaToFileCall kql,
                            CreateExecConfigurationCall (URI c) (DBs targets) kqlFile failIfDataLoss])
                | (deltaCfgFile, None) \<Rightarrow>
                    ((config\<lparr>KQLFile := kqlFile, JobFile := deltaCfgFile\<rparr>, None),
                     log @ [StoreKQLSchemaToFileCall kql,
                            CreateExecConfigurationCall (URI c) (DBs targets) kqlFile failIfDataLoss]))))"

section \<open>Notions used to state the properties\<close>

text \<open>
  The database names that a row stream carries (the set \<open>D\<close> of the spec): the first
  column of each row, in the order of the stream; inline errors carry none.
\<close>

fun databaseNames :: "event list \<Rightarrow> string list" where
  "databaseNames [] = []"
| "databaseNames (RowEvent row # evs) = take 1 (Values row) @ databaseNames evs"
| "databaseNames (InlineError err # evs) = databaseNames evs"

text \<open>
  Every row has a column, as the projection \<open>| project DatabaseName\<close> of the statement
  makes it (the spec's query capability returns "rows with at least one string-valued
  column").
\<close>

fun wellFormedRows :: "event list \<Rightarrow> bool" where
  "wellFormedRows [] = True"
| "wellFormedRows (RowEvent row # evs) = (Values row \<noteq> [] \<and> wellFormedRows evs)"
| "wellFormedRows (InlineError err # evs) = wellFormedRows evs"

text \<open>The names and the error in a result of \<open>AquireTargets\<close>.\<close>

definition dbsOf ::
  "panic + (ClusterTargets \<times> error option) \<Rightarrow> panic + (string list \<times> error option)" where
  "dbsOf r = (case r of Inl p \<Rightarrow> Inl p | Inr (targets, err) \<Rightarrow> Inr (DBs targets, err))"

subsection \<open>An example cluster\<close>

definition exampleIterator :: RowIterator where
  "exampleIterator =
     \<lparr>events = [RowEvent (Row [''db'']), InlineError (KustoError ''partial failure''),
                RowEvent (Row [''db1'']), RowEvent (Row [''other''])],
      terminal = None\<rparr>"

definition exampleCluster :: KustoCluster where
  "exampleCluster =
     \<lparr>URI = ''https://fabrikam.kusto.windows.net'',
      Databases = [],
      Client = \<lparr>Mgmt = (\<lambda>db stmt. Inr exampleIterator)\<rparr>,
      wrapper = \<lparr>Wrapper_CreateExecConfiguration = (\<lambda>uri dbs kqlFile fail. (''job.yaml'', None))\<rparr>\<rparr>"

definition exampleEnv :: env where
  "exampleEnv =
     \<lparr>regexp_Compile = literalCompile,
      PerformQuery = (\<lambda>url cluster label. ([''tenant1'', ''tenant2''], None)),
      StoreKQLSchemaToFile = (\<lambda>kql. (''schema.kql'', None)),
      RunDeltaKusto = (\<lambda>jobFile. None)\<rparr>"

text \<open>The same cluster with a stream that breaks off after two rows.\<close>

definition brokenIterator :: RowIterator where
  "brokenIterator =
     \<lparr>events = [RowEvent (Row [''db'']), RowEvent (Row [''db1''])],
      terminal = Some (KustoError ''connection reset'')\<rparr>"

definition brokenCluster :: KustoCluster where
  "brokenCluster = exampleCluster\<lparr>Client := \<lparr>Mgmt = (\<lambda>db stmt. Inr brokenIterator)\<rparr>\<rparr>"

text \<open>The same cluster under a URI that lacks the scheme.\<close>

definition schemelessCluster :: KustoCluster where
  "schemelessCluster = exampleCluster\<lparr>URI := ''fabrikam.kusto.windows.net''\<rparr>"

text \<open>A schema file store that fails, and a cluster whose job-file generator fails.\<close>

definition fullStoreEnv :: env where
  "fullStoreEnv = exampleEnv\<lparr>StoreKQLSchemaToFile := (\<lambda>kql. ([], Some (OtherError ''disk full'')))\<rparr>"

definition noJobCluster :: KustoCluster where
  "noJobCluster =
     exampleCluster\<lparr>wrapper :=
       \<lparr>Wrapper_CreateExecConfiguration =
          (\<lambda>uri dbs kqlFile fail. ([], Some (OtherError ''delta-kusto: exit status 1'')))\<rparr>\<rparr>"

section \<open>Properties of the string functions\<close>

lemma Index_Some_occurrence:
  "Index s sep = Some m \<Longrightarrow> take (length sep) (drop m s) = sep"
proof (induction s arbitrary: m)
  case Nil
  then show ?case by (simp split: if_splits)
next
  case (Cons c cs)
  show ?case
  proof (cases "take (length sep) (c # cs) = sep")
    case True
    with Cons.prems show ?thesis by simp
  next
    case False
    with Cons.prems obtain k where "Index cs sep = Some k" "m = Suc k"
      by auto
    with Cons.IH show ?thesis by simp
  qed
qed

lemma Index_Some_subset:
  assumes "Index s sep = Some m"
  shows "set sep \<subseteq> set s"
proof -
  have "set (take (length sep) (drop m s)) \<subseteq> set s"
    using set_take_subset set_drop_subset by fast
  with Index_Some_occurrence [OF assms] show ?thesis by simp
qed

lemma Index_prefix: "Index (sep @ rest) sep = Some 0"
proof (cases "sep @ rest")
  case Nil
  then show ?thesis by simp
next
  case (Cons a list)
  have "take (length sep) (sep @ rest) = sep" by simp
  with Cons show ?thesis by simp
qed

lemma Index_first_char:
  "c \<notin> set name \<Longrightarrow> Index (name @ c # rest) [c] = Some (length name)"
  by (induction name) auto

lemma Split_nonempty: "sep \<noteq> [] \<Longrightarrow> Split s sep \<noteq> []"
  by (simp add: Split.simps split: option.splits)

lemma hd_Split:
  "sep \<noteq> [] \<Longrightarrow> hd (Split s sep) = (case Index s sep of None \<Rightarrow> s | Some m \<Rightarrow> take m s)"
  by (simp add: Split.simps split: option.splits)

lemma index_0: "xs \<noteq> [] \<Longrightarrow> index xs 0 = Inr (hd xs)"
  by (cases xs) (simp_all add: index_def)

lemma Split_not_Contains:
  "sep \<noteq> [] \<Longrightarrow> \<not> Contains s sep \<Longrightarrow> Split s sep = [s]"
  by (simp add: Split.simps Contains_def)

lemma Split_prefix:
  "sep \<noteq> [] \<Longrightarrow> Split (sep @ rest) sep = [] # Split rest sep"
  by (subst Split.simps) (simp add: Index_prefix)

lemma index_Split_prefix:
  assumes "sep \<noteq> []"
  shows "index (Split (sep @ r) sep) 1 = Inr (hd (Split r sep))"
proof -
  from Split_nonempty [OF assms] obtain a list where "Split r sep = a # list"
    by (cases "Split r sep") auto
  with assms show ?thesis
    by (simp add: Split_prefix index_def)
qed

lemma ClusterNameFromURI_scheme:
  "ClusterNameFromURI (''https://'' @ r) = Inr (hd (Split (hd (Split r ''https://'')) ''.''))"
proof -
  have "index (Split (''https://'' @ r) ''https://'') 1 = Inr (hd (Split r ''https://''))"
    by (rule index_Split_prefix) simp
  moreover have "index (Split (hd (Split r ''https://'')) ''.'') 0
      = Inr (hd (Split (hd (Split r ''https://'')) ''.''))"
    by (rule index_0) (simp add: Split_nonempty)
  ultimately show ?thesis
    by (simp only: ClusterNameFromURI_def sum.case)
qed

lemma Index_behind:
  assumes c: "c \<notin> set sep" and d: "d \<in> set sep" "d \<notin> set name"
    and ix: "Index (name @ c # rest) sep = Some m"
  shows "length name < m"
proof (rule ccontr)
  assume "\<not> length name < m"
  then have le: "m \<le> length name" by simp
  let ?xs = "drop m name"
  from Index_Some_occurrence [OF ix] le
  have occ: "take (length sep) (?xs @ c # rest) = sep" by simp
  show False
  proof (cases "length sep \<le> length ?xs")
    case True
    with occ have "take (length sep) ?xs = sep" by simp
    moreover have "set (take (length sep) ?xs) \<subseteq> set name"
      using set_take_subset set_drop_subset by fast
    ultimately have "set sep \<subseteq> set name" by simp
    with d show False by auto
  next
    case False
    then have "take (length sep) (?xs @ c # rest)
        = ?xs @ c # take (length sep - length ?xs - 1) rest"
      by (simp add: take_Cons')
    with occ have "c \<in> set sep"
      by (metis in_set_conv_decomp)
    with c show False by simp
  qed
qed

lemma hd_Split_scheme_label:
  assumes dot: "CHR ''.'' \<notin> set name" and colon: "CHR '':'' \<notin> set name"
  shows "\<exists>rest'. hd (Split (name @ CHR ''.'' # rest) ''https://'') = name @ CHR ''.'' # rest'"
proof (cases "Index (name @ CHR ''.'' # rest) ''https://''")
  case None
  then show ?thesis by (simp add: hd_Split)
next
  case (Some m)
  have "length name < m"
    by (rule Index_behind [OF _ _ colon Some]) simp_all
  then have "take m (name @ CHR ''.'' # rest) = name @ CHR ''.'' # take (m - length name - 1) rest"
    by (simp add: take_Cons')
  with Some show ?thesis by (simp add: hd_Split)
qed

lemma ClusterNameFromURI_label_dot:
  assumes dot: "CHR ''.'' \<notin> set name" and colon: "CHR '':'' \<notin> set name"
  shows "ClusterNameFromURI (''https://'' @ name @ CHR ''.'' # rest) = Inr name"
proof -
  from hd_Split_scheme_label [OF dot colon] obtain rest'
    where "hd (Split (name @ CHR ''.'' # rest) ''https://'') = name @ CHR ''.'' # rest'"
    by blast
  moreover have "hd (Split (name @ CHR ''.'' # rest') ''.'') = name"
    using dot by (simp add: hd_Split Index_first_char)
  ultimately show ?thesis
    by (simp only: ClusterNameFromURI_scheme)
qed

lemma ClusterNameFromURI_label_only:
  assumes dot: "CHR ''.'' \<notin> set name" and colon: "CHR '':'' \<notin> set name"
  shows "ClusterNameFromURI (''https://'' @ name) = Inr name"
proof -
  have "Index name ''https://'' = None"
  proof (cases "Index name ''https://''")
    case (Some m)
    from Index_Some_subset [OF Some] colon show ?thesis by simp
  qed simp
  moreover have "Index name ''.'' = None"
  proof (cases "Index name ''.''")
    case (Some m)
    from Index_Some_subset [OF Some] dot show ?thesis by simp
  qed simp
  ultimately have "hd (Split (hd (Split name ''https://'')) ''.'') = name"
    by (simp add: hd_Split)
  then show ?thesis
    by (simp only: ClusterNameFromURI_scheme)
qed

lemma ClusterNameFromURI_no_scheme:
  "\<not> Contains uri ''https://'' \<Longrightarrow> ClusterNameFromURI uri = Inl (IndexOutOfRange 1 1)"
  by (simp add: ClusterNameFromURI_def Split_not_Contains index_def)

section \<open>Properties of the iteration over the metadata query\<close>

lemma DoOnRowOrError_result:
  "DoOnRowOrError evs term (onRowOrError re) acc = Inr (dbs, r) \<Longrightarrow>
     dbs = acc @ filter (MatchString re) (databaseNames evs) \<and> r = term"
proof (induction evs arbitrary: acc)
  case Nil
  then show ?case by simp
next
  case (Cons ev evs)
  show ?case
  proof (cases ev)
    case (RowEvent row)
    show ?thesis
    proof (cases "Values row")
      case Nil
      with RowEvent Cons.prems show ?thesis
        by (simp add: onRowOrError_def index_def)
    next
      case (Cons dbName vs)
      with RowEvent Cons.prems Cons.IH [of "if MatchString re dbName then acc @ [dbName] else acc"]
      show ?thesis
        by (simp add: onRowOrError_def index_def split: if_splits)
    qed
  next
    case (InlineError err)
    with Cons.prems Cons.IH [of acc] show ?thesis
      by (simp add: onRowOrError_def)
  qed
qed

lemma DoOnRowOrError_wellFormed:
  "wellFormedRows evs \<Longrightarrow>
     DoOnRowOrError evs term (onRowOrError re) acc
       = Inr (acc @ filter (MatchString re) (databaseNames evs), term)"
proof (induction evs arbitrary: acc)
  case Nil
  then show ?case by simp
next
  case (Cons ev evs)
  show ?case
  proof (cases ev)
    case (RowEvent row)
    with Cons.prems obtain dbName vs where row: "Values row = dbName # vs"
      by (cases "Values row") auto
    from RowEvent Cons.prems have "wellFormedRows evs" by simp
    with RowEvent row Cons.IH show ?thesis
      by (simp add: onRowOrError_def index_def)
  next
    case (InlineError err)
    with Cons.prems Cons.IH show ?thesis
      by (simp add: onRowOrError_def)
  qed
qed

lemma ListDatabases_success:
  assumes "regexp_Compile e P = Inr re"
    and "Mgmt (Client c) [] showDatabases = Inr iter"
    and "terminal iter = None"
    and "wellFormedRows (events iter)"
  shows "ListDatabases e c P log =
     (Inr (filter (MatchString re) (databaseNames (events iter)), None),
      log @ [MgmtCall [] showDatabases, StopCall])"
  using assms by (simp add: ListDatabases_def DoOnRowOrError_wellFormed)

lemma ListDatabases_terminal:
  assumes "regexp_Compile e P = Inr re"
    and "Mgmt (Client c) [] showDatabases = Inr iter"
    and "terminal iter = Some err"
    and "wellFormedRows (events iter)"
  shows "ListDatabases e c P log =
     (Inr ([], Some err), log @ [MgmtCall [] showDatabases, StopCall])"
  using assms by (simp add: ListDatabases_def DoOnRowOrError_wellFormed)

lemma ListDatabases_returned:
  assumes "regexp_Compile e P = Inr re"
    and "Mgmt (Client c) [] showDatabases = Inr iter"
    and "fst (ListDatabases e c P log) = Inr (dbs, r)"
  shows "r = terminal iter \<and>
     dbs = (if terminal iter = None then filter (MatchString re) (databaseNames (events iter)) else [])"
proof (cases "DoOnRowOrError (events iter) (terminal iter) (onRowOrError re) []")
  case (Inl p)
  with assms show ?thesis by (simp add: ListDatabases_def)
next
  case (Inr res)
  obtain dbs' r' where res: "res = (dbs', r')" by (cases res)
  from DoOnRowOrError_result [OF Inr [unfolded res]]
  have "dbs' = filter (MatchString re) (databaseNames (events iter))" "r' = terminal iter"
    by simp_all
  with assms Inr res show ?thesis
    by (cases "terminal iter") (auto simp: ListDatabases_def)
qed

section \<open>Properties of the branches of AquireTargets\<close>

lemma ListDatabases_error_nil:
  "fst (ListDatabases e c P log) = Inr (dbs, Some err) \<Longrightarrow> dbs = []"
  by (auto simp: ListDatabases_def split: sum.splits prod.splits option.splits)

lemma AquireTargets_of_dbs:
  "AquireTargets e c f log =
     (case (if DB f \<noteq> [] then ListDatabases e c (DB f) log
            else if DBS f \<noteq> [] then (Inr (DBS f, None), log)
            else if Webhook f \<noteq> [] then
              (case ClusterNameFromURI (URI c) of
                 Inl p \<Rightarrow> (Inl p, log)
               | Inr name \<Rightarrow>
                   (Inr (PerformQuery e (Webhook f) name (Label f)),
                    log @ [PerformQueryCall (Webhook f) name (Label f)]))
            else ListDatabases e c [] log) of
        (Inl p, log') \<Rightarrow> (Inl p, log')
      | (Inr (dbs, Some err), log') \<Rightarrow> (Inr (\<lparr>DBs = []\<rparr>, Some err), log')
      | (Inr (dbs, None), log') \<Rightarrow> (Inr (\<lparr>DBs = dbs\<rparr>, None), log'))"
  unfolding AquireTargets_def Let_def
  by (simp split: prod.splits sum.splits option.splits)

lemma AquireTargets_catalog:
  assumes "DB f \<noteq> [] \<or> (DBS f = [] \<and> Webhook f = [])"
  shows "dbsOf (fst (AquireTargets e c f log)) = fst (ListDatabases e c (DB f) log) \<and>
         snd (AquireTargets e c f log) = snd (ListDatabases e c (DB f) log)"
proof -
  obtain r log' where L: "ListDatabases e c (DB f) log = (r, log')"
    by (cases "ListDatabases e c (DB f) log")
  have A: "AquireTargets e c f log =
     (case (r, log') of
        (Inl p, log') \<Rightarrow> (Inl p, log')
      | (Inr (dbs, Some err), log') \<Rightarrow> (Inr (\<lparr>DBs = []\<rparr>, Some err), log')
      | (Inr (dbs, None), log') \<Rightarrow> (Inr (\<lparr>DBs = dbs\<rparr>, None), log'))"
  proof (cases "DB f = []")
    case True
    with assms have "DBS f = []" "Webhook f = []" by simp_all
    with True L show ?thesis by (simp add: AquireTargets_of_dbs)
  next
    case False
    with L show ?thesis by (simp add: AquireTargets_of_dbs)
  qed
  show ?thesis
  proof (cases r)
    case (Inl p)
    with A L show ?thesis by (simp add: dbsOf_def)
  next
    case (Inr res)
    obtain dbs err where res: "res = (dbs, err)" by (cases res)
    show ?thesis
    proof (cases err)
      case None
      with A L Inr res show ?thesis by (simp add: dbsOf_def)
    next
      case (Some x)
      from L Inr res Some have "fst (ListDatabases e c (DB f) log) = Inr (dbs, Some x)"
        by simp
      then have "dbs = []" by (rule ListDatabases_error_nil)
      with A L Inr res Some show ?thesis by (simp add: dbsOf_def)
    qed
  qed
qed

lemma AquireTargets_webhook:
  assumes "DB f = []" "DBS f = []" "Webhook f \<noteq> []"
    and "ClusterNameFromURI (URI c) = Inr name"
  shows "AquireTargets e c f log =
     (Inr (case PerformQuery e (Webhook f) name (Label f) of
             (dbs, None) \<Rightarrow> (\<lparr>DBs = dbs\<rparr>, None)
           | (dbs, Some err) \<Rightarrow> (\<lparr>DBs = []\<rparr>, Some err)),
      log @ [PerformQueryCall (Webhook f) name (Label f)])"
  using assms
  by (simp add: AquireTargets_of_dbs split: prod.splits option.splits)

lemma AquireTargets_webhook_panic:
  assumes "DB f = []" "DBS f = []" "Webhook f \<noteq> []"
    and "ClusterNameFromURI (URI c) = Inl p"
  shows "AquireTargets e c f log = (Inl p, log)"
  using assms by (simp add: AquireTargets_of_dbs)

lemma Contains_self: "Contains s s"
  using Index_prefix [of s "[]"] by (simp add: Contains_def)


section \<open>Facts about the example cluster\<close>

lemma example_Mgmt: "Mgmt (Client exampleCluster) [] showDatabases = Inr exampleIterator"
  by (simp add: exampleCluster_def)

lemma example_names: "databaseNames (events exampleIterator) = [''db'', ''db1'', ''other'']"
  by (simp add: exampleIterator_def)

lemma example_wellFormed: "wellFormedRows (events exampleIterator)"
  by (simp add: exampleIterator_def)

lemma example_eof: "terminal exampleIterator = None"
  by (simp add: exampleIterator_def)

lemma example_Compile_db: "regexp_Compile exampleEnv ''db'' = Inr (literalRegexp ''db'')"
  by (simp add: exampleEnv_def literalCompile_def hasMeta_def specialBytes_def)

lemma example_Compile_empty: "regexp_Compile exampleEnv [] = Inr (literalRegexp [])"
  by (simp add: exampleEnv_def literalCompile_def hasMeta_def)

lemma literalRegexp_empty: "MatchString (literalRegexp []) d"
  by (cases d) (simp_all add: literalRegexp_def Contains_def)

lemma example_matches:
  "{d \<in> set (databaseNames (events exampleIterator)). MatchString (literalRegexp ''db'') d}
      = {''db'', ''db1''}"
proof -
  have "filter (MatchString (literalRegexp ''db'')) [''db'', ''db1'', ''other''] = [''db'', ''db1'']"
    by (simp add: literalRegexp_def Contains_def)
  then have "set (filter (MatchString (literalRegexp ''db'')) [''db'', ''db1'', ''other''])
      = {''db'', ''db1''}"
    by (simp only: list.set)
  then show ?thesis
    by (simp only: example_names set_filter)
qed

lemma broken_Mgmt: "Mgmt (Client brokenCluster) [] showDatabases = Inr brokenIterator"
  by (simp add: brokenCluster_def)

lemma broken_terminal: "terminal brokenIterator = Some (KustoError ''connection reset'')"
  by (simp add: brokenIterator_def)

lemma broken_wellFormed: "wellFormedRows (events brokenIterator)"
  by (simp add: brokenIterator_def)

lemma example_Compile_paren: "regexp_Compile exampleEnv ''('' = Inl (RegexpSyntaxError ''('')"
  by (simp add: exampleEnv_def literalCompile_def hasMeta_def specialBytes_def)

lemma example_ListDatabases_db:
  "ListDatabases exampleEnv exampleCluster ''db'' []
     = (Inr ([''db'', ''db1''], None), [MgmtCall [] showDatabases, StopCall])"
proof -
  have "filter (MatchString (literalRegexp ''db'')) [''db'', ''db1'', ''other''] = [''db'', ''db1'']"
    by (simp add: literalRegexp_def Contains_def)
  with ListDatabases_success [OF example_Compile_db example_Mgmt example_eof example_wellFormed,
      of "[]"]
  show ?thesis by (simp add: example_names)
qed

lemma schemeless_name:
  "ClusterNameFromURI (URI schemelessCluster) = Inl (IndexOutOfRange 1 1)"
  by (simp add: schemelessCluster_def ClusterNameFromURI_def Split.simps index_def)

lemma example_not_hasMeta_db: "\<not> hasMeta ''db''"
  by (simp add: hasMeta_def specialBytes_def)

lemma example_AquireTargets_db:
  "AquireTargets exampleEnv exampleCluster \<lparr>DB = ''db'', DBS = [], Webhook = [], Label = []\<rparr> []
     = (Inr (\<lparr>DBs = [''db'', ''db1'']\<rparr>, None), [MgmtCall [] showDatabases, StopCall])"
  by (simp add: AquireTargets_of_dbs example_ListDatabases_db)

section \<open>Cluster name extraction: the first label behind the scheme\<close>

text \<open>
  C6, as amended. \<open>ClusterNameFromURI\<close> yields the first DNS label behind the scheme:
  \<open>fabrikam\<close> for \<open>https://fabrikam.kusto.windows.net\<close>, and \<open>name\<close> for every URI
  \<open>https://name\<close> or \<open>https://name.rest\<close> whose \<open>name\<close> has neither a dot nor a colon.
  For an input in which \<open>https://\<close> does not occur it yields no name and no error
  value: the index expression \<open>[1]\<close> panics on a slice of length 1.
\<close>

theorem ClusterNameFromURI_first_label:
  "ClusterNameFromURI ''https://fabrikam.kusto.windows.net'' = Inr ''fabrikam'' \<and>
   (CHR ''.'' \<notin> set name \<and> CHR '':'' \<notin> set name \<longrightarrow>
      ClusterNameFromURI (''https://'' @ name) = Inr name \<and>
      ClusterNameFromURI (''https://'' @ name @ CHR ''.'' # rest) = Inr name) \<and>
   (\<not> Contains uri ''https://'' \<longrightarrow> ClusterNameFromURI uri = Inl (IndexOutOfRange 1 1))"
proof (intro conjI impI)
  have "ClusterNameFromURI (''https://'' @ ''fabrikam'' @ CHR ''.'' # ''kusto.windows.net'')
      = Inr ''fabrikam''"
    by (rule ClusterNameFromURI_label_dot) simp_all
  then show "ClusterNameFromURI ''https://fabrikam.kusto.windows.net'' = Inr ''fabrikam''"
    by simp
next
  assume "CHR ''.'' \<notin> set name \<and> CHR '':'' \<notin> set name"
  then have "CHR ''.'' \<notin> set name" and "CHR '':'' \<notin> set name"
    by blast+
  then show "ClusterNameFromURI (''https://'' @ name) = Inr name"
    by (rule ClusterNameFromURI_label_only)
next
  assume "CHR ''.'' \<notin> set name \<and> CHR '':'' \<notin> set name"
  then have "CHR ''.'' \<notin> set name" and "CHR '':'' \<notin> set name"
    by blast+
  then show "ClusterNameFromURI (''https://'' @ name @ CHR ''.'' # rest) = Inr name"
    by (rule ClusterNameFromURI_label_dot)
next
  assume "\<not> Contains uri ''https://''"
  then show "ClusterNameFromURI uri = Inl (IndexOutOfRange 1 1)"
    by (rule ClusterNameFromURI_no_scheme)
qed

theorem ClusterNameFromURI_first_label_witness:
  "CHR ''.'' \<notin> set ''contoso'' \<and> CHR '':'' \<notin> set ''contoso'' \<and>
   ClusterNameFromURI ''https://contoso'' = Inr ''contoso'' \<and>
   ClusterNameFromURI ''https://contoso.westeurope.kusto.windows.net'' = Inr ''contoso'' \<and>
   \<not> Contains ''http://contoso.kusto.windows.net'' ''https://'' \<and>
   ClusterNameFromURI ''http://contoso.kusto.windows.net'' = Inl (IndexOutOfRange 1 1)"
  using ClusterNameFromURI_first_label
    [of "''contoso''" "''westeurope.kusto.windows.net''" "''http://contoso.kusto.windows.net''"]
  by (simp add: Contains_def)

text \<open>
  C6 as the spec has it fails on both counts: without the scheme the extraction
  crashes, and with the scheme behind other text it returns a label although the prefix
  is absent.
\<close>

theorem ClusterNameFromURI_scheme_absent_counterexample:
  "ClusterNameFromURI ''fabrikam.kusto.windows.net'' = Inl (IndexOutOfRange 1 1) \<and>
   ClusterNameFromURI ''xhttps://fabrikam.kusto.windows.net'' = Inr ''fabrikam''"
  by (simp add: ClusterNameFromURI_def Split.simps index_def)

section \<open>ListDatabases: the names that match\<close>

text \<open>
  C2. When the pattern compiles, the management query succeeds and its stream of
  well-formed rows ends with \<open>io.EOF\<close>, \<open>ListDatabases\<close> returns without error a list
  whose set of elements is exactly the set of database names of the stream that the
  compiled pattern matches. That set depends on the set of names only: any other stream
  carrying the same names, in any order, gives the same set. With the empty pattern,
  which Go compiles to an expression that matches every string, the result is the whole
  list of names.
\<close>

theorem ListDatabases_filters:
  assumes mgmt: "Mgmt (Client c) [] showDatabases = Inr iter"
    and eof: "terminal iter = None"
    and rows: "wellFormedRows (events iter)"
  shows
    "(regexp_Compile e P = Inr re \<longrightarrow>
        (\<exists>dbs. fst (ListDatabases e c P log) = Inr (dbs, None) \<and>
           set dbs = {d \<in> set (databaseNames (events iter)). MatchString re d} \<and>
           (\<forall>c' iter' log'.
              Mgmt (Client c') [] showDatabases = Inr iter' \<and> terminal iter' = None \<and>
              wellFormedRows (events iter') \<and>
              set (databaseNames (events iter')) = set (databaseNames (events iter)) \<longrightarrow>
              (\<exists>dbs'. fst (ListDatabases e c' P log') = Inr (dbs', None) \<and> set dbs' = set dbs)))) \<and>
     (regexp_Compile e [] = Inr re \<and> (\<forall>d. MatchString re d) \<longrightarrow>
        fst (ListDatabases e c [] log) = Inr (databaseNames (events iter), None))"
proof (intro conjI impI)
  assume comp: "regexp_Compile e P = Inr re"
  let ?dbs = "filter (MatchString re) (databaseNames (events iter))"
  have res: "fst (ListDatabases e c P log) = Inr (?dbs, None)"
    by (simp add: ListDatabases_success [OF comp mgmt eof rows])
  have sel: "set ?dbs = {d \<in> set (databaseNames (events iter)). MatchString re d}"
    by simp
  have perm: "\<exists>dbs'. fst (ListDatabases e c' P log') = Inr (dbs', None) \<and> set dbs' = set ?dbs"
    if other: "Mgmt (Client c') [] showDatabases = Inr iter' \<and> terminal iter' = None \<and>
        wellFormedRows (events iter') \<and>
        set (databaseNames (events iter')) = set (databaseNames (events iter))"
    for c' iter' log'
  proof -
    from other have m': "Mgmt (Client c') [] showDatabases = Inr iter'"
      and t': "terminal iter' = None" and w': "wellFormedRows (events iter')"
      and same: "set (databaseNames (events iter')) = set (databaseNames (events iter))"
      by blast+
    have "fst (ListDatabases e c' P log')
        = Inr (filter (MatchString re) (databaseNames (events iter')), None)"
      by (simp add: ListDatabases_success [OF comp m' t' w'])
    moreover have "set (filter (MatchString re) (databaseNames (events iter'))) = set ?dbs"
      using same by simp
    ultimately show ?thesis by blast
  qed
  from res sel perm
  show "\<exists>dbs. fst (ListDatabases e c P log) = Inr (dbs, None) \<and>
           set dbs = {d \<in> set (databaseNames (events iter)). MatchString re d} \<and>
           (\<forall>c' iter' log'.
              Mgmt (Client c') [] showDatabases = Inr iter' \<and> terminal iter' = None \<and>
              wellFormedRows (events iter') \<and>
              set (databaseNames (events iter')) = set (databaseNames (events iter)) \<longrightarrow>
              (\<exists>dbs'. fst (ListDatabases e c' P log') = Inr (dbs', None) \<and> set dbs' = set dbs))"
    by blast
next
  assume all: "regexp_Compile e [] = Inr re \<and> (\<forall>d. MatchString re d)"
  then have comp: "regexp_Compile e [] = Inr re" and every: "\<And>d. MatchString re d"
    by blast+
  from every have "filter (MatchString re) (databaseNames (events iter)) = databaseNames (events iter)"
    by simp
  then show "fst (ListDatabases e c [] log) = Inr (databaseNames (events iter), None)"
    by (simp add: ListDatabases_success [OF comp mgmt eof rows])
qed


theorem ListDatabases_filters_witness:
  "Mgmt (Client exampleCluster) [] showDatabases = Inr exampleIterator \<and>
   terminal exampleIterator = None \<and>
   wellFormedRows (events exampleIterator) \<and>
   regexp_Compile exampleEnv ''db'' = Inr (literalRegexp ''db'') \<and>
   (\<exists>dbs. fst (ListDatabases exampleEnv exampleCluster ''db'' []) = Inr (dbs, None) \<and>
      set dbs = {''db'', ''db1''}) \<and>
   regexp_Compile exampleEnv [] = Inr (literalRegexp []) \<and>
   fst (ListDatabases exampleEnv exampleCluster [] []) = Inr ([''db'', ''db1'', ''other''], None)"
proof -
  note hyps = example_Mgmt example_eof example_wellFormed
  note T = ListDatabases_filters [OF hyps, of exampleEnv]
  from T [of "''db''" "literalRegexp ''db''" "[]", THEN conjunct1, THEN mp, OF example_Compile_db]
  obtain dbs where "fst (ListDatabases exampleEnv exampleCluster ''db'' []) = Inr (dbs, None)"
    and "set dbs = {d \<in> set (databaseNames (events exampleIterator)).
                     MatchString (literalRegexp ''db'') d}"
    by (elim exE conjE)
  then have first: "\<exists>dbs. fst (ListDatabases exampleEnv exampleCluster ''db'' []) = Inr (dbs, None) \<and>
      set dbs = {''db'', ''db1''}"
    unfolding example_matches by (intro exI conjI)
  have "regexp_Compile exampleEnv [] = Inr (literalRegexp []) \<and>
      (\<forall>d. MatchString (literalRegexp []) d)"
    using example_Compile_empty literalRegexp_empty by (intro conjI allI)
  from T [of "''db''" "literalRegexp []" "[]", THEN conjunct2, THEN mp, OF this]
  have second: "fst (ListDatabases exampleEnv exampleCluster [] []) = Inr ([''db'', ''db1'', ''other''], None)"
    by (simp only: example_names)
  from hyps example_Compile_db first example_Compile_empty second
  show ?thesis by (intro conjI)
qed

section \<open>ListDatabases: a stream that ends with an error\<close>

text \<open>
  C3. When the iteration over the rows of the management query ends with a terminal
  error, \<open>ListDatabases\<close> returns no name and that error: on a stream of well-formed rows
  the result is the nil slice with the error (after the query and the deferred
  \<open>Stop\<close>), and whatever the rows are, a result that is returned has no names and carries
  the terminal error, so the names collected before the error never come back.
\<close>

theorem ListDatabases_terminal_error:
  assumes comp: "regexp_Compile e P = Inr re"
    and mgmt: "Mgmt (Client c) [] showDatabases = Inr iter"
    and ends: "terminal iter = Some err"
  shows
    "(wellFormedRows (events iter) \<longrightarrow>
        ListDatabases e c P log
          = (Inr ([], Some err), log @ [MgmtCall [] showDatabases, StopCall])) \<and>
     (\<forall>dbs r. fst (ListDatabases e c P log) = Inr (dbs, r) \<longrightarrow> dbs = [] \<and> r = Some err)"
proof (intro conjI impI allI)
  assume "wellFormedRows (events iter)"
  then show "ListDatabases e c P log
      = (Inr ([], Some err), log @ [MgmtCall [] showDatabases, StopCall])"
    by (rule ListDatabases_terminal [OF comp mgmt ends])
next
  fix dbs r
  assume "fst (ListDatabases e c P log) = Inr (dbs, r)"
  from ListDatabases_returned [OF comp mgmt this] ends
  show "dbs = []" and "r = Some err" by simp_all
qed

theorem ListDatabases_terminal_error_witness:
  "regexp_Compile exampleEnv ''db'' = Inr (literalRegexp ''db'') \<and>
   Mgmt (Client brokenCluster) [] showDatabases = Inr brokenIterator \<and>
   terminal brokenIterator = Some (KustoError ''connection reset'') \<and>
   wellFormedRows (events brokenIterator) \<and>
   databaseNames (events brokenIterator) = [''db'', ''db1''] \<and>
   ListDatabases exampleEnv brokenCluster ''db'' []
     = (Inr ([], Some (KustoError ''connection reset'')),
        [MgmtCall [] showDatabases, StopCall])"
proof -
  from ListDatabases_terminal_error
    [OF example_Compile_db broken_Mgmt broken_terminal, of "[]", THEN conjunct1, THEN mp,
     OF broken_wellFormed]
  have "ListDatabases exampleEnv brokenCluster ''db'' []
     = (Inr ([], Some (KustoError ''connection reset'')),
        [MgmtCall [] showDatabases, StopCall])"
    by simp
  moreover have "databaseNames (events brokenIterator) = [''db'', ''db1'']"
    by (simp add: brokenIterator_def)
  ultimately show ?thesis
    using example_Compile_db broken_Mgmt broken_terminal broken_wellFormed
    by (intro conjI)
qed

section \<open>ListDatabases: a pattern that does not compile\<close>

text \<open>
  C4. When \<open>regexp.Compile\<close> refuses the pattern, \<open>ListDatabases\<close> returns the nil slice
  with the error of the compiler and the log of calls is unchanged: no management query
  is issued, and there is no fallback to a pattern that matches everything.
\<close>

theorem ListDatabases_invalid_pattern:
  assumes "regexp_Compile e P = Inl err"
  shows "ListDatabases e c P log = (Inr ([], Some err), log)"
  using assms by (simp add: ListDatabases_def)

theorem ListDatabases_invalid_pattern_witness:
  "regexp_Compile exampleEnv ''('' = Inl (RegexpSyntaxError ''('') \<and>
   ListDatabases exampleEnv exampleCluster ''('' []
     = (Inr ([], Some (RegexpSyntaxError ''('')), [])"
  using ListDatabases_invalid_pattern [OF example_Compile_paren, of exampleCluster "[]"]
    example_Compile_paren
  by (intro conjI)

section \<open>AquireTargets: the explicit list\<close>

text \<open>
  C5. For a filter with an empty \<open>DB\<close> and a non-empty \<open>DBS\<close>, \<open>AquireTargets\<close> returns
  exactly \<open>DBS\<close> without error, and the log of calls is unchanged: neither the
  management query nor the webhook is called, whatever the cluster holds.
\<close>

theorem AquireTargets_explicit_list:
  assumes "DB f = []" and "DBS f \<noteq> []"
  shows "AquireTargets e c f log = (Inr (\<lparr>DBs = DBS f\<rparr>, None), log)"
  using assms by (simp add: AquireTargets_def)

theorem AquireTargets_explicit_list_witness:
  "DB \<lparr>DB = [], DBS = [''db1'', ''db2''], Webhook = ''http://lookup'', Label = ''prod''\<rparr> = [] \<and>
   DBS \<lparr>DB = [], DBS = [''db1'', ''db2''], Webhook = ''http://lookup'', Label = ''prod''\<rparr> \<noteq> [] \<and>
   AquireTargets exampleEnv exampleCluster
       \<lparr>DB = [], DBS = [''db1'', ''db2''], Webhook = ''http://lookup'', Label = ''prod''\<rparr> []
     = (Inr (\<lparr>DBs = [''db1'', ''db2'']\<rparr>, None), [])"
  using AquireTargets_explicit_list
    [of "\<lparr>DB = [], DBS = [''db1'', ''db2''], Webhook = ''http://lookup'', Label = ''prod''\<rparr>"
        exampleEnv exampleCluster "[]"]
  by simp

section \<open>AquireTargets: the order of the strategies\<close>

text \<open>
  C1, as amended. \<open>AquireTargets\<close> takes the first strategy that applies. A non-empty
  \<open>DB\<close> hands that string to \<open>ListDatabases\<close>: names, error, panic and calls are those
  of \<open>ListDatabases\<close>, also when \<open>DBS\<close> is populated. Otherwise a non-empty \<open>DBS\<close> is
  returned as it is, with no call. Otherwise a non-empty \<open>Webhook\<close> first takes the
  short name of the cluster from its URI: when that yields a name, one request goes to
  the provider with the name and the label, and the answer of the provider is the
  result; when it panics (no \<open>https://\<close> in the URI), \<open>AquireTargets\<close> panics with it
  and no request is made. Otherwise \<open>ListDatabases\<close> runs on the empty pattern.
\<close>

theorem AquireTargets_precedence:
  "(DB f \<noteq> [] \<longrightarrow>
      dbsOf (fst (AquireTargets e c f log)) = fst (ListDatabases e c (DB f) log) \<and>
      snd (AquireTargets e c f log) = snd (ListDatabases e c (DB f) log)) \<and>
   (DB f = [] \<and> DBS f \<noteq> [] \<longrightarrow>
      AquireTargets e c f log = (Inr (\<lparr>DBs = DBS f\<rparr>, None), log)) \<and>
   (DB f = [] \<and> DBS f = [] \<and> Webhook f \<noteq> [] \<longrightarrow>
      AquireTargets e c f log =
        (case ClusterNameFromURI (URI c) of
           Inl p \<Rightarrow> (Inl p, log)
         | Inr name \<Rightarrow>
             (Inr (case PerformQuery e (Webhook f) name (Label f) of
                     (dbs, None) \<Rightarrow> (\<lparr>DBs = dbs\<rparr>, None)
                   | (dbs, Some err) \<Rightarrow> (\<lparr>DBs = []\<rparr>, Some err)),
              log @ [PerformQueryCall (Webhook f) name (Label f)]))) \<and>
   (DB f = [] \<and> DBS f = [] \<and> Webhook f = [] \<longrightarrow>
      dbsOf (fst (AquireTargets e c f log)) = fst (ListDatabases e c [] log) \<and>
      snd (AquireTargets e c f log) = snd (ListDatabases e c [] log))"
proof (intro conjI impI)
  assume "DB f \<noteq> []"
  then have "DB f \<noteq> [] \<or> (DBS f = [] \<and> Webhook f = [])" by simp
  from AquireTargets_catalog [OF this]
  show "dbsOf (fst (AquireTargets e c f log)) = fst (ListDatabases e c (DB f) log)"
    and "snd (AquireTargets e c f log) = snd (ListDatabases e c (DB f) log)"
    by simp_all
next
  assume "DB f = [] \<and> DBS f \<noteq> []"
  then show "AquireTargets e c f log = (Inr (\<lparr>DBs = DBS f\<rparr>, None), log)"
    by (simp add: AquireTargets_of_dbs)
next
  assume hook: "DB f = [] \<and> DBS f = [] \<and> Webhook f \<noteq> []"
  show "AquireTargets e c f log =
        (case ClusterNameFromURI (URI c) of
           Inl p \<Rightarrow> (Inl p, log)
         | Inr name \<Rightarrow>
             (Inr (case PerformQuery e (Webhook f) name (Label f) of
                     (dbs, None) \<Rightarrow> (\<lparr>DBs = dbs\<rparr>, None)
                   | (dbs, Some err) \<Rightarrow> (\<lparr>DBs = []\<rparr>, Some err)),
              log @ [PerformQueryCall (Webhook f) name (Label f)]))"
  proof (cases "ClusterNameFromURI (URI c)")
    case (Inl p)
    with hook show ?thesis by (simp add: AquireTargets_webhook_panic)
  next
    case (Inr name)
    with hook show ?thesis by (simp add: AquireTargets_webhook)
  qed
next
  assume none: "DB f = [] \<and> DBS f = [] \<and> Webhook f = []"
  then have "DB f \<noteq> [] \<or> (DBS f = [] \<and> Webhook f = [])" by simp
  from AquireTargets_catalog [OF this] none
  show "dbsOf (fst (AquireTargets e c f log)) = fst (ListDatabases e c [] log)"
    and "snd (AquireTargets e c f log) = snd (ListDatabases e c [] log)"
    by simp_all
qed

theorem AquireTargets_precedence_witness:
  "DB \<lparr>DB = ''db'', DBS = [''other''], Webhook = ''http://lookup'', Label = ''prod''\<rparr> \<noteq> [] \<and>
   dbsOf (fst (AquireTargets exampleEnv exampleCluster
       \<lparr>DB = ''db'', DBS = [''other''], Webhook = ''http://lookup'', Label = ''prod''\<rparr> []))
     = Inr ([''db'', ''db1''], None) \<and>
   snd (AquireTargets exampleEnv exampleCluster
       \<lparr>DB = ''db'', DBS = [''other''], Webhook = ''http://lookup'', Label = ''prod''\<rparr> [])
     = [MgmtCall [] showDatabases, StopCall] \<and>
   ClusterNameFromURI (URI exampleCluster) = Inr ''fabrikam'' \<and>
   AquireTargets exampleEnv exampleCluster
       \<lparr>DB = [], DBS = [], Webhook = ''http://lookup'', Label = ''prod''\<rparr> []
     = (Inr (\<lparr>DBs = [''tenant1'', ''tenant2'']\<rparr>, None),
        [PerformQueryCall ''http://lookup'' ''fabrikam'' ''prod'']) \<and>
   ClusterNameFromURI (URI schemelessCluster) = Inl (IndexOutOfRange 1 1) \<and>
   AquireTargets exampleEnv schemelessCluster
       \<lparr>DB = [], DBS = [], Webhook = ''http://lookup'', Label = ''prod''\<rparr> [StopCall]
     = (Inl (IndexOutOfRange 1 1), [StopCall])"
proof -
  let ?f = "\<lparr>DB = ''db'', DBS = [''other''], Webhook = ''http://lookup'', Label = ''prod''\<rparr>"
  let ?g = "\<lparr>DB = [], DBS = [], Webhook = ''http://lookup'', Label = ''prod''\<rparr>"
  have name: "ClusterNameFromURI (URI exampleCluster) = Inr ''fabrikam''"
    by (simp add: exampleCluster_def ClusterNameFromURI_def Split.simps index_def)
  have f: "DB ?f \<noteq> []" by simp
  from AquireTargets_precedence [of ?f exampleEnv exampleCluster "[]", THEN conjunct1, THEN mp, OF f]
  have first: "dbsOf (fst (AquireTargets exampleEnv exampleCluster ?f [])) = Inr ([''db'', ''db1''], None)"
    and calls: "snd (AquireTargets exampleEnv exampleCluster ?f []) = [MgmtCall [] showDatabases, StopCall]"
    by (simp_all add: example_ListDatabases_db)
  have g: "DB ?g = [] \<and> DBS ?g = [] \<and> Webhook ?g \<noteq> []" by simp
  from AquireTargets_precedence [of ?g exampleEnv exampleCluster "[]",
      THEN conjunct2, THEN conjunct2, THEN conjunct1, THEN mp, OF g]
  have third: "AquireTargets exampleEnv exampleCluster ?g []
     = (Inr (\<lparr>DBs = [''tenant1'', ''tenant2'']\<rparr>, None),
        [PerformQueryCall ''http://lookup'' ''fabrikam'' ''prod''])"
    by (simp add: name exampleEnv_def)
  from AquireTargets_precedence [of ?g exampleEnv schemelessCluster "[StopCall]",
      THEN conjunct2, THEN conjunct2, THEN conjunct1, THEN mp, OF g]
  have fourth: "AquireTargets exampleEnv schemelessCluster ?g [StopCall]
     = (Inl (IndexOutOfRange 1 1), [StopCall])"
    by (simp add: schemeless_name)
  from f first calls name third schemeless_name fourth show ?thesis by (intro conjI)
qed

text \<open>
  C1 as the spec has it fails in its third case: on a cluster whose URI has no
  \<open>https://\<close>, a filter with only the webhook set makes no request to the provider;
  \<open>AquireTargets\<close> panics while it takes the short name, and the log of calls stays
  empty.
\<close>

theorem AquireTargets_webhook_scheme_absent_counterexample:
  "DB \<lparr>DB = [], DBS = [], Webhook = ''http://lookup'', Label = ''prod''\<rparr> = [] \<and>
   DBS \<lparr>DB = [], DBS = [], Webhook = ''http://lookup'', Label = ''prod''\<rparr> = [] \<and>
   Webhook \<lparr>DB = [], DBS = [], Webhook = ''http://lookup'', Label = ''prod''\<rparr> \<noteq> [] \<and>
   URI schemelessCluster = ''fabrikam.kusto.windows.net'' \<and>
   AquireTargets exampleEnv schemelessCluster
       \<lparr>DB = [], DBS = [], Webhook = ''http://lookup'', Label = ''prod''\<rparr> []
     = (Inl (IndexOutOfRange 1 1), [])"
proof -
  let ?g = "\<lparr>DB = [], DBS = [], Webhook = ''http://lookup'', Label = ''prod''\<rparr>"
  have "AquireTargets exampleEnv schemelessCluster ?g [] = (Inl (IndexOutOfRange 1 1), [])"
    by (rule AquireTargets_webhook_panic) (simp_all add: schemeless_name)
  moreover have "URI schemelessCluster = ''fabrikam.kusto.windows.net''"
    by (simp add: schemelessCluster_def exampleCluster_def)
  ultimately show ?thesis by simp
qed

section \<open>AquireTargets: a single database name is a pattern\<close>

text \<open>
  C7, as amended. For a non-empty \<open>DB\<close> value \<open>S\<close> without a regular-expression
  metacharacter, which \<open>regexp.Compile\<close> compiles as the literal \<open>S\<close>, the resolved
  targets are the database names of the cluster that contain \<open>S\<close> as a substring, in the
  order of the rows; the name equal to \<open>S\<close>, when the cluster has it, is among them.
\<close>

theorem AquireTargets_singleDB_contains:
  assumes db: "DB f = S" and ne: "S \<noteq> []" and lit: "\<not> hasMeta S"
    and comp: "regexp_Compile e S = literalCompile S"
    and mgmt: "Mgmt (Client c) [] showDatabases = Inr iter"
    and eof: "terminal iter = None"
    and rows: "wellFormedRows (events iter)"
  shows "fst (AquireTargets e c f log)
           = Inr (\<lparr>DBs = filter (\<lambda>d. Contains d S) (databaseNames (events iter))\<rparr>, None) \<and>
         (S \<in> set (databaseNames (events iter)) \<longrightarrow>
            S \<in> set (filter (\<lambda>d. Contains d S) (databaseNames (events iter))))"
proof (intro conjI impI)
  from comp lit have c: "regexp_Compile e (DB f) = Inr (literalRegexp S)"
    by (simp add: literalCompile_def db)
  have m: "MatchString (literalRegexp S) = (\<lambda>d. Contains d S)"
    by (simp add: literalRegexp_def)
  from ListDatabases_success [OF c mgmt eof rows, of log]
  have L: "fst (ListDatabases e c (DB f) log)
      = Inr (filter (\<lambda>d. Contains d S) (databaseNames (events iter)), None)"
    by (simp add: m)
  from db ne have "DB f \<noteq> [] \<or> (DBS f = [] \<and> Webhook f = [])" by simp
  from AquireTargets_catalog [OF this, of e c log] L
  have "dbsOf (fst (AquireTargets e c f log))
      = Inr (filter (\<lambda>d. Contains d S) (databaseNames (events iter)), None)"
    by simp
  then show "fst (AquireTargets e c f log)
           = Inr (\<lparr>DBs = filter (\<lambda>d. Contains d S) (databaseNames (events iter))\<rparr>, None)"
    by (auto simp: dbsOf_def split: sum.splits prod.splits)
next
  assume "S \<in> set (databaseNames (events iter))"
  then show "S \<in> set (filter (\<lambda>d. Contains d S) (databaseNames (events iter)))"
    by (simp add: Contains_self)
qed


theorem AquireTargets_singleDB_contains_witness:
  "DB \<lparr>DB = ''db'', DBS = [], Webhook = [], Label = []\<rparr> = ''db'' \<and> ''db'' \<noteq> [] \<and>
   \<not> hasMeta ''db'' \<and>
   regexp_Compile exampleEnv ''db'' = literalCompile ''db'' \<and>
   Mgmt (Client exampleCluster) [] showDatabases = Inr exampleIterator \<and>
   terminal exampleIterator = None \<and>
   wellFormedRows (events exampleIterator) \<and>
   fst (AquireTargets exampleEnv exampleCluster
          \<lparr>DB = ''db'', DBS = [], Webhook = [], Label = []\<rparr> [])
     = Inr (\<lparr>DBs = [''db'', ''db1'']\<rparr>, None)"
proof -
  let ?f = "\<lparr>DB = ''db'', DBS = [], Webhook = [], Label = []\<rparr>"
  have db: "DB ?f = ''db''" and ne: "''db'' \<noteq> []" by simp_all
  have comp: "regexp_Compile exampleEnv ''db'' = literalCompile ''db''"
    by (simp add: exampleEnv_def)
  have sel: "filter (\<lambda>d. Contains d ''db'') (databaseNames (events exampleIterator)) = [''db'', ''db1'']"
    by (simp add: example_names Contains_def)
  from AquireTargets_singleDB_contains
    [OF db ne example_not_hasMeta_db comp example_Mgmt example_eof example_wellFormed, of "[]",
     THEN conjunct1]
  have "fst (AquireTargets exampleEnv exampleCluster ?f []) = Inr (\<lparr>DBs = [''db'', ''db1'']\<rparr>, None)"
    by (simp only: sel)
  with db ne example_not_hasMeta_db comp example_Mgmt example_eof example_wellFormed
  show ?thesis by (intro conjI)
qed

text \<open>
  C7 as the spec has it fails: on a cluster with the databases \<open>db\<close>, \<open>db1\<close> and
  \<open>other\<close>, the filter with \<open>DB = "db"\<close> resolves to \<open>db\<close> and \<open>db1\<close>, not to \<open>db\<close>
  alone.
\<close>

theorem AquireTargets_singleDB_exact_counterexample:
  "\<not> hasMeta ''db'' \<and>
   databaseNames (events exampleIterator) = [''db'', ''db1'', ''other''] \<and>
   fst (AquireTargets exampleEnv exampleCluster
          \<lparr>DB = ''db'', DBS = [], Webhook = [], Label = []\<rparr> [])
     = Inr (\<lparr>DBs = [''db'', ''db1'']\<rparr>, None) \<and>
   ''db1'' \<noteq> ''db''"
  by (simp add: example_not_hasMeta_db example_names example_AquireTargets_db)

section \<open>AquireTargets: duplicates\<close>




section \<open>CreateExecConfiguration: no configuration on failure\<close>

text \<open>
  C9. Whenever \<open>CreateExecConfiguration\<close> returns an error, the configuration it
  returns is the empty one, with neither \<open>KQLFile\<close> nor \<open>JobFile\<close> set; and each failing
  step does return its error: a config map without the key \<open>kql\<close> (before any call),
  a failure to store the schema file, a failure of the job-file generator.
\<close>

theorem CreateExecConfiguration_fails_closed:
  "(\<forall>err. snd (fst (CreateExecConfiguration e c targets cfgMap failIfDataLoss log)) = Some err \<longrightarrow>
      fst (fst (CreateExecConfiguration e c targets cfgMap failIfDataLoss log))
        = \<lparr>KQLFile = [], JobFile = []\<rparr>) \<and>
   (Data cfgMap ''kql'' = None \<longrightarrow>
      CreateExecConfiguration e c targets cfgMap failIfDataLoss log
        = ((\<lparr>KQLFile = [], JobFile = []\<rparr>, Some (ErrorString ''no kql found in configmap'')), log)) \<and>
   (\<forall>kql kqlFile err.
      Data cfgMap ''kql'' = Some kql \<and> StoreKQLSchemaToFile e kql = (kqlFile, Some err) \<longrightarrow>
      fst (CreateExecConfiguration e c targets cfgMap failIfDataLoss log)
        = (\<lparr>KQLFile = [], JobFile = []\<rparr>, Some err)) \<and>
   (\<forall>kql kqlFile deltaCfgFile err.
      Data cfgMap ''kql'' = Some kql \<and> StoreKQLSchemaToFile e kql = (kqlFile, None) \<and>
      Wrapper_CreateExecConfiguration (wrapper c) (URI c) (DBs targets) kqlFile failIfDataLoss
        = (deltaCfgFile, Some err) \<longrightarrow>
      fst (CreateExecConfiguration e c targets cfgMap failIfDataLoss log)
        = (\<lparr>KQLFile = [], JobFile = []\<rparr>, Some err))"
  by (auto simp: CreateExecConfiguration_def Let_def split: option.splits prod.splits)

theorem CreateExecConfiguration_fails_closed_witness:
  "Data \<lparr>Data = Map.empty\<rparr> ''kql'' = None \<and>
   CreateExecConfiguration exampleEnv exampleCluster \<lparr>DBs = [''db'']\<rparr> \<lparr>Data = Map.empty\<rparr> True []
     = ((\<lparr>KQLFile = [], JobFile = []\<rparr>, Some (ErrorString ''no kql found in configmap'')), []) \<and>
   Data \<lparr>Data = [''kql'' \<mapsto> ''.create table T (a: int)'']\<rparr> ''kql'' = Some ''.create table T (a: int)'' \<and>
   StoreKQLSchemaToFile fullStoreEnv ''.create table T (a: int)'' = ([], Some (OtherError ''disk full'')) \<and>
   fst (CreateExecConfiguration fullStoreEnv exampleCluster \<lparr>DBs = [''db'']\<rparr>
          \<lparr>Data = [''kql'' \<mapsto> ''.create table T (a: int)'']\<rparr> True [])
     = (\<lparr>KQLFile = [], JobFile = []\<rparr>, Some (OtherError ''disk full'')) \<and>
   StoreKQLSchemaToFile exampleEnv ''.create table T (a: int)'' = (''schema.kql'', None) \<and>
   Wrapper_CreateExecConfiguration (wrapper noJobCluster) (URI noJobCluster)
       (DBs \<lparr>DBs = [''db'']\<rparr>) ''schema.kql'' True
     = ([], Some (OtherError ''delta-kusto: exit status 1'')) \<and>
   fst (CreateExecConfiguration exampleEnv noJobCluster \<lparr>DBs = [''db'']\<rparr>
          \<lparr>Data = [''kql'' \<mapsto> ''.create table T (a: int)'']\<rparr> True [])
     = (\<lparr>KQLFile = [], JobFile = []\<rparr>, Some (OtherError ''delta-kusto: exit status 1''))"
proof -
  let ?m = "\<lparr>Data = [''kql'' \<mapsto> ''.create table T (a: int)'']\<rparr>"
  let ?t = "\<lparr>DBs = [''db'']\<rparr>"
  have none: "Data \<lparr>Data = Map.empty\<rparr> ''kql'' = None" by simp
  from CreateExecConfiguration_fails_closed
    [of exampleEnv exampleCluster ?t "\<lparr>Data = Map.empty\<rparr>" True "[]",
     THEN conjunct2, THEN conjunct1, THEN mp, OF none]
  have first: "CreateExecConfiguration exampleEnv exampleCluster ?t \<lparr>Data = Map.empty\<rparr> True []
     = ((\<lparr>KQLFile = [], JobFile = []\<rparr>, Some (ErrorString ''no kql found in configmap'')), [])" .
  have some: "Data ?m ''kql'' = Some ''.create table T (a: int)''" by simp
  have store: "StoreKQLSchemaToFile fullStoreEnv ''.create table T (a: int)''
      = ([], Some (OtherError ''disk full''))"
    by (simp add: fullStoreEnv_def)
  from some store
  have both: "Data ?m ''kql'' = Some ''.create table T (a: int)'' \<and>
      StoreKQLSchemaToFile fullStoreEnv ''.create table T (a: int)''
        = ([], Some (OtherError ''disk full''))"
    by (intro conjI)
  from CreateExecConfiguration_fails_closed
    [of fullStoreEnv exampleCluster ?t ?m True "[]",
     THEN conjunct2, THEN conjunct2, THEN conjunct1, THEN spec, THEN spec, THEN spec, THEN mp,
     OF both]
  have second: "fst (CreateExecConfiguration fullStoreEnv exampleCluster ?t ?m True [])
     = (\<lparr>KQLFile = [], JobFile = []\<rparr>, Some (OtherError ''disk full''))" .
  have stored: "StoreKQLSchemaToFile exampleEnv ''.create table T (a: int)'' = (''schema.kql'', None)"
    by (simp add: exampleEnv_def)
  have gen: "Wrapper_CreateExecConfiguration (wrapper noJobCluster) (URI noJobCluster)
       (DBs ?t) ''schema.kql'' True
     = ([], Some (OtherError ''delta-kusto: exit status 1''))"
    by (simp add: noJobCluster_def)
  from some stored gen
  have all3: "Data ?m ''kql'' = Some ''.create table T (a: int)'' \<and>
      StoreKQLSchemaToFile exampleEnv ''.create table T (a: int)'' = (''schema.kql'', None) \<and>
      Wrapper_CreateExecConfiguration (wrapper noJobCluster) (URI noJobCluster)
        (DBs ?t) ''schema.kql'' True
        = ([], Some (OtherError ''delta-kusto: exit status 1''))"
    by (intro conjI)
  from CreateExecConfiguration_fails_closed
    [of exampleEnv noJobCluster ?t ?m True "[]",
     THEN conjunct2, THEN conjunct2, THEN conjunct2,
     THEN spec, THEN spec, THEN spec, THEN spec, THEN mp, OF all3]
  have third: "fst (CreateExecConfiguration exampleEnv noJobCluster ?t ?m True [])
     = (\<lparr>KQLFile = [], JobFile = []\<rparr>, Some (OtherError ''delta-kusto: exit status 1''))" .
  from none first some store second stored gen third show ?thesis by (intro conjI)
qed

section \<open>Execute: the job file decides\<close>

text \<open>
  C10. \<open>Execute\<close> returns the empty \<open>ClusterTargets\<close> together with the result of
  \<open>RunDeltaKusto\<close> on \<open>config.JobFile\<close>, which is its only call; two executions with the
  same job file agree, whatever the cluster, the targets and the schema file are.
\<close>

theorem Execute_runs_job_file_only:
  "Execute e c targets config log
     = ((\<lparr>DBs = []\<rparr>, RunDeltaKusto e (JobFile config)),
        log @ [RunDeltaKustoCall (JobFile config)]) \<and>
   (\<forall>c' targets' config'.
      JobFile config' = JobFile config \<longrightarrow>
      Execute e c' targets' config' log = Execute e c targets config log)"
  by (simp add: Execute_def)

theorem Execute_runs_job_file_only_witness:
  "Execute exampleEnv exampleCluster \<lparr>DBs = [''db'', ''db1'']\<rparr>
       \<lparr>KQLFile = ''schema.kql'', JobFile = ''job.yaml''\<rparr> []
     = ((\<lparr>DBs = []\<rparr>, None), [RunDeltaKustoCall ''job.yaml'']) \<and>
   JobFile \<lparr>KQLFile = ''other.kql'', JobFile = ''job.yaml''\<rparr>
     = JobFile \<lparr>KQLFile = ''schema.kql'', JobFile = ''job.yaml''\<rparr> \<and>
   Execute exampleEnv brokenCluster \<lparr>DBs = []\<rparr>
       \<lparr>KQLFile = ''other.kql'', JobFile = ''job.yaml''\<rparr> []
     = Execute exampleEnv exampleCluster \<lparr>DBs = [''db'', ''db1'']\<rparr>
       \<lparr>KQLFile = ''schema.kql'', JobFile = ''job.yaml''\<rparr> []"
proof -
  let ?cfg = "\<lparr>KQLFile = ''schema.kql'', JobFile = ''job.yaml''\<rparr>"
  let ?cfg' = "\<lparr>KQLFile = ''other.kql'', JobFile = ''job.yaml''\<rparr>"
  let ?t = "\<lparr>DBs = [''db'', ''db1'']\<rparr>"
  note T = Execute_runs_job_file_only [of exampleEnv exampleCluster ?t ?cfg "[]"]
  from T [THEN conjunct1]
  have first: "Execute exampleEnv exampleCluster ?t ?cfg []
      = ((\<lparr>DBs = []\<rparr>, None), [RunDeltaKustoCall ''job.yaml''])"
    by (simp add: exampleEnv_def)
  have same: "JobFile ?cfg' = JobFile ?cfg" by simp
  from T [THEN conjunct2, THEN spec, THEN spec, THEN spec, THEN mp, OF same]
  have second: "Execute exampleEnv brokenCluster \<lparr>DBs = []\<rparr> ?cfg' []
      = Execute exampleEnv exampleCluster ?t ?cfg []" .
  from first same second show ?thesis by (intro conjI)
qed

end
